theory Spec2Isabelle
  imports Complex_Main
begin

section \<open>Conventions of the embedding\<close>

text \<open>
  The program is \<^verbatim>\<open>src/main.py\<close>. A Python float is modelled by the real number it
  denotes, a binary64 value; NaN and the infinities are outside the model. Comparison,
  \<^verbatim>\<open>abs\<close> and \<^verbatim>\<open>max\<close> of floats are exact and are those of the reals. Subtraction and division
  of floats round their result; they are not code of the repository and are the fields
  \<open>fsub\<close> and \<open>fdiv\<close> of a parameter of type \<open>float_arith\<close>, so that what is proved holds for
  the binary64 operations in particular. A float literal denotes the binary64 value nearest
  to its decimal value: \<open>lit_0_001\<close> for \<^verbatim>\<open>0.001\<close> and \<open>lit_1e_6\<close> for \<^verbatim>\<open>1e-6\<close>. The builtin
  \<^verbatim>\<open>float(s)\<close> is a parameter \<open>pyfloat\<close> as well; it returns \<open>None\<close> where the builtin raises.
  Strings are ASCII character lists. The external programs (the inspector, the packet lister
  and the muxer/encoder) are parameters too.
\<close>

type_synonym pyfloat = "string \<Rightarrow> real option"

record float_arith =
  fsub :: "real \<Rightarrow> real \<Rightarrow> real"
  fdiv :: "real \<Rightarrow> real \<Rightarrow> real"

definition lit_0_001 :: real where
  "lit_0_001 = 1152921504606847 / 1152921504606846976"

definition lit_1e_6 :: real where
  "lit_1e_6 = 4722366482869645 / 4722366482869645213696"

subsection \<open>Configuration (lines 9-13)\<close>

definition RAW_EXTS :: "string set" where
  "RAW_EXTS = {''.h264'', ''.hevc'', ''.dav''}"

subsection \<open>String helpers of the Python library\<close>

definition lower_char :: "char \<Rightarrow> char" where
  "lower_char c =
     (case map_of (zip ''ABCDEFGHIJKLMNOPQRSTUVWXYZ'' ''abcdefghijklmnopqrstuvwxyz'') c of
        Some d \<Rightarrow> d
      | None \<Rightarrow> c)"

definition lower :: "string \<Rightarrow> string" where
  "lower s = map lower_char s"

definition is_space :: "char \<Rightarrow> bool" where
  "is_space c = ((of_char c :: nat) \<in> {9, 10, 11, 12, 13, 28, 29, 30, 31, 32})"

definition strip :: "string \<Rightarrow> string" where
  "strip s = rev (dropWhile is_space (rev (dropWhile is_space s)))"

text \<open>\<^verbatim>\<open>s.rfind(c)\<close>: the index of the last occurrence, \<open>None\<close> for Python's \<open>-1\<close>.\<close>

fun rfind :: "char \<Rightarrow> string \<Rightarrow> nat option" where
  "rfind c [] = None"
| "rfind c (x # xs) =
     (case rfind c xs of
        Some i \<Rightarrow> Some (Suc i)
      | None \<Rightarrow> if x = c then Some 0 else None)"

text \<open>\<^verbatim>\<open>sub in s\<close> for strings.\<close>

fun contains :: "string \<Rightarrow> string \<Rightarrow> bool" where
  "contains sub [] = (sub = [])"
| "contains sub (x # xs) = (take (length sub) (x # xs) = sub \<or> contains sub xs)"

subsection \<open>Paths (pathlib, POSIX flavour)\<close>

text \<open>
  A path is its directory prefix (empty, or ending in the separator) and its final component;
  \<^verbatim>\<open>str(path)\<close> is their concatenation. \<open>suffix\<close> and \<open>stem\<close> split the name at its last dot
  when that dot is neither the first nor the last character.
\<close>

datatype path = Path (dir_prefix: string) (name: string)

datatype error = ValueError | FileNotFoundError

definition str_path :: "path \<Rightarrow> string" where
  "str_path p = dir_prefix p @ name p"

definition suffix :: "path \<Rightarrow> string" where
  "suffix p =
     (case rfind (CHR ''.'') (name p) of
        None \<Rightarrow> []
      | Some i \<Rightarrow> if 0 < i \<and> i < length (name p) - 1 then drop i (name p) else [])"

definition stem :: "path \<Rightarrow> string" where
  "stem p =
     (case rfind (CHR ''.'') (name p) of
        None \<Rightarrow> name p
      | Some i \<Rightarrow> if 0 < i \<and> i < length (name p) - 1 then take i (name p) else name p)"

definition with_name :: "path \<Rightarrow> string \<Rightarrow> error + path" where
  "with_name p n =
     (if name p = [] then Inl ValueError
      else if n = [] \<or> CHR ''/'' \<in> set n \<or> n = ''.'' then Inl ValueError
      else Inr (Path (dir_prefix p) n))"

definition with_suffix :: "path \<Rightarrow> string \<Rightarrow> error + path" where
  "with_suffix p s =
     (if CHR ''/'' \<in> set s then Inl ValueError
      else if (s \<noteq> [] \<and> take 1 s \<noteq> ''.'') \<or> s = ''.'' then Inl ValueError
      else if name p = [] then Inl ValueError
      else Inr (Path (dir_prefix p) (stem p @ s)))"

section \<open>Metadata probe (lines 23-65)\<close>

text \<open>
  \<open>ffprobe_json\<close> runs the inspector and decodes its JSON output; its result is the
  parameter \<open>ffprobe_json\<close> of \<open>get_meta\<close>: \<open>None\<close> on a non-zero exit or undecodable
  output, otherwise the decoded object. Of a top-level key the model keeps whether it is
  absent, null or has a value, and \<open>pj_other_keys\<close> tells whether the object has any key
  besides \<^verbatim>\<open>format\<close> and \<^verbatim>\<open>streams\<close>: line 36 tests the object for emptiness. A field of the
  format or of a stream is \<open>None\<close> when its key is absent or null, which lines 41-62 do not
  distinguish, and otherwise the string the inspector printed.
\<close>

datatype 'a jfield = Absent | Null | Val 'a

record fmt_info =
  fmt_duration :: "string option"
  fmt_format_name :: "string option"
  fmt_start_time :: "string option"

record stream_info =
  codec_type :: "string option"
  codec_name :: "string option"
  st_duration :: "string option"

record probe_json =
  pj_format :: "fmt_info jfield"
  pj_streams :: "stream_info list jfield"
  pj_other_keys :: bool

definition empty_fmt :: fmt_info where
  "empty_fmt = \<lparr>fmt_duration = None, fmt_format_name = None, fmt_start_time = None\<rparr>"

text \<open>The loop over the streams (lines 53-64), on the pair \<open>(vcodec, dur)\<close>.\<close>

fun streams_loop ::
  "pyfloat \<Rightarrow> stream_info list \<Rightarrow> string option \<times> real option \<Rightarrow> string option \<times> real option"
where
  "streams_loop fl [] (vcodec, dur) = (vcodec, dur)"
| "streams_loop fl (st # rest) (vcodec, dur) =
     (let vcodec' = (if codec_type st = Some ''video'' then codec_name st else vcodec);
          dur' =
            (if dur = None then
               (case st_duration st of
                  None \<Rightarrow> dur
                | Some sd \<Rightarrow>
                    (case fl sd of
                       None \<Rightarrow> dur
                     | Some sv \<Rightarrow>
                         if sv > 0
                         then (case dur of None \<Rightarrow> Some sv | Some d \<Rightarrow> Some (max d sv))
                         else dur))
             else dur)
      in streams_loop fl rest (vcodec', dur'))"

definition get_meta ::
  "pyfloat \<Rightarrow> (path \<Rightarrow> probe_json option) \<Rightarrow> path \<Rightarrow>
   real option \<times> string option \<times> string option \<times> real option"
where
  "get_meta fl ffprobe_json p =
     (case ffprobe_json p of
        None \<Rightarrow> (None, None, None, None)
      | Some data \<Rightarrow>
          if pj_format data = Absent \<and> pj_streams data = Absent \<and> \<not> pj_other_keys data
          then (None, None, None, None)
          else
            let fmt = (case pj_format data of Val f \<Rightarrow> f | _ \<Rightarrow> empty_fmt);
                streams = (case pj_streams data of Val ss \<Rightarrow> ss | _ \<Rightarrow> []);
                dur = (case fmt_duration fmt of None \<Rightarrow> None | Some d \<Rightarrow> fl d);
                container = (case fmt_format_name fmt of None \<Rightarrow> [] | Some c \<Rightarrow> c);
                start_time = (case fmt_start_time fmt of None \<Rightarrow> None | Some t \<Rightarrow> fl t);
                (vcodec, dur') = streams_loop fl streams (None, dur)
            in (dur', Some container, vcodec, start_time))"

section \<open>Packet timeline sampler (lines 67-91)\<close>

text \<open>
  The parameter \<open>packet_lines\<close> gives the lines the packet lister prints for a path, \<open>None\<close>
  when the process cannot be started. The loop keeps the pair
  \<open>(first_pts, last_pts)\<close> of the variables \<^verbatim>\<open>first\<close> and \<^verbatim>\<open>last\<close>.
\<close>

fun pts_loop ::
  "pyfloat \<Rightarrow> string list \<Rightarrow> real option \<times> real option \<Rightarrow> real option \<times> real option"
where
  "pts_loop fl [] (first_pts, last_pts) = (first_pts, last_pts)"
| "pts_loop fl (line # rest) (first_pts, last_pts) =
     (let line' = strip line in
      if line' = [] then pts_loop fl rest (first_pts, last_pts)
      else
        (case fl line' of
           None \<Rightarrow> pts_loop fl rest (first_pts, last_pts)
         | Some val \<Rightarrow>
             pts_loop fl rest
               ((if first_pts = None then Some val else first_pts), Some val)))"

definition get_packet_first_last_pts ::
  "pyfloat \<Rightarrow> (path \<Rightarrow> string list option) \<Rightarrow> path \<Rightarrow> real option \<times> real option"
where
  "get_packet_first_last_pts fl packet_lines p =
     (case packet_lines p of
        None \<Rightarrow> (None, None)
      | Some ls \<Rightarrow> pts_loop fl ls (None, None))"

section \<open>Verdict engine (lines 94-138)\<close>

text \<open>
  The verdict is the Python string. The reason, an f-string in the source, is kept as the
  data it renders: \<open>RawBitstream ext\<close> for line 101, \<open>NoMetaNoPts\<close> for line 108,
  \<open>NoMetaPktSuggest pkt_dur\<close> for line 112, \<open>MetaNoPts\<close> for line 118, \<open>Issues\<close> for the
  parts joined at line 132 and \<open>Coherent\<close> for line 136. The diagnostics dictionary is a map
  from keys to values. The divisor of line 123 is at least \<open>lit_1e_6\<close>, so the division does
  not raise.
\<close>

datatype issue =
    Divergence real real real
  | BadCombo "string option" "string option"

datatype reason =
    RawBitstream string
  | NoMetaNoPts
  | NoMetaPktSuggest real
  | MetaNoPts
  | Issues "issue list"
  | Coherent

datatype dval = DNone | DStr string | DFloat real

definition dstr :: "string option \<Rightarrow> dval" where
  "dstr s = (case s of None \<Rightarrow> DNone | Some x \<Rightarrow> DStr x)"

type_synonym extras = "string \<rightharpoonup> dval"

definition unusable :: "real option \<Rightarrow> real option \<Rightarrow> bool" where
  "unusable fpts lpts =
     (case fpts of
        None \<Rightarrow> True
      | Some f \<Rightarrow> (case lpts of None \<Rightarrow> True | Some l \<Rightarrow> l \<le> f))"

definition verdict_for_file ::
  "float_arith \<Rightarrow> pyfloat \<Rightarrow> (path \<Rightarrow> probe_json option) \<Rightarrow> (path \<Rightarrow> string list option) \<Rightarrow>
   path \<Rightarrow> real \<Rightarrow> string \<times> reason \<times> extras"
where
  "verdict_for_file fa fl ffprobe_json packet_lines p diverge_tol =
     (let ext = lower (suffix p) in
      if ext \<in> RAW_EXTS then (''WRAP'', RawBitstream ext, [''ext'' \<mapsto> DStr ext])
      else
        let (meta_dur, container, vcodec, start_time) = get_meta fl ffprobe_json p;
            (fpts, lpts) = get_packet_first_last_pts fl packet_lines p
        in
        if (case meta_dur of None \<Rightarrow> True | Some m \<Rightarrow> m \<le> lit_0_001) then
          (if unusable fpts lpts then
             (''FIX'', NoMetaNoPts,
              [''container'' \<mapsto> dstr container, ''vcodec'' \<mapsto> dstr vcodec])
           else
             let pkt_dur = fsub fa (the lpts) (the fpts) in
             (''FIX'', NoMetaPktSuggest pkt_dur,
              [''container'' \<mapsto> dstr container, ''vcodec'' \<mapsto> dstr vcodec,
               ''pkt_duration'' \<mapsto> DFloat pkt_dur]))
        else
          (if unusable fpts lpts then
             (''FIX'', MetaNoPts,
              [''container'' \<mapsto> dstr container, ''vcodec'' \<mapsto> dstr vcodec,
               ''meta_duration'' \<mapsto> DFloat (the meta_dur)])
           else
             let pkt_dur = max 0 (fsub fa (the lpts) (the fpts));
                 divergence =
                   fdiv fa \<bar>fsub fa pkt_dur (the meta_dur)\<bar> (max (the meta_dur) lit_1e_6);
                 bad_combo =
                   (contains ''mpeg'' (case container of None \<Rightarrow> [] | Some c \<Rightarrow> c)
                    \<and> vcodec \<in> {Some ''h264'', Some ''hevc''})
             in
             if divergence > diverge_tol \<or> bad_combo then
               (''FIX'',
                Issues
                  ((if divergence > diverge_tol
                    then [Divergence divergence (the meta_dur) pkt_dur] else [])
                   @ (if bad_combo then [BadCombo container vcodec] else [])),
                [''container'' \<mapsto> dstr container, ''vcodec'' \<mapsto> dstr vcodec,
                 ''meta_duration'' \<mapsto> DFloat (the meta_dur),
                 ''pkt_duration'' \<mapsto> DFloat pkt_dur])
             else
               (''OK'', Coherent,
                [''container'' \<mapsto> dstr container, ''vcodec'' \<mapsto> dstr vcodec,
                 ''meta_duration'' \<mapsto> DFloat (the meta_dur),
                 ''pkt_duration'' \<mapsto> DFloat pkt_dur])))"

section \<open>File system and external muxer/encoder\<close>

text \<open>
  The state is the set of regular files, keyed by \<^verbatim>\<open>str(path)\<close> with their content, and the
  list of command lines handed to \<open>run\<close> by the repair actions, oldest first. The
  muxer/encoder is a parameter \<open>tool\<close>: from a command line and the files it gives the exit
  status and the files afterwards. Directories are not part of the state, so
  \<open>ensure_parent\<close>, which creates the directory the source file already lies in, leaves it as
  it is. \<open>rename\<close> replaces an existing target, as on POSIX.
\<close>

type_synonym fs = "string \<rightharpoonup> string"

type_synonym tool = "string list \<Rightarrow> fs \<Rightarrow> int \<times> fs"

record world =
  files :: fs
  invoked :: "string list list"

definition run :: "tool \<Rightarrow> string list \<Rightarrow> world \<Rightarrow> int \<times> world" where
  "run tool cmd w =
     (case tool cmd (files w) of
        (rc, fs') \<Rightarrow> (rc, w\<lparr>files := fs', invoked := invoked w @ [cmd]\<rparr>))"

definition path_exists :: "world \<Rightarrow> path \<Rightarrow> bool" where
  "path_exists w p = (files w (str_path p) \<noteq> None)"

definition st_size :: "world \<Rightarrow> path \<Rightarrow> error + nat" where
  "st_size w p =
     (case files w (str_path p) of None \<Rightarrow> Inl FileNotFoundError | Some c \<Rightarrow> Inr (length c))"

definition size_positive :: "world \<Rightarrow> path \<Rightarrow> bool" where
  "size_positive w p = (case st_size w p of Inl e \<Rightarrow> False | Inr n \<Rightarrow> 0 < n)"

definition unlink_ignoring_errors :: "path \<Rightarrow> world \<Rightarrow> world" where
  "unlink_ignoring_errors p w = w\<lparr>files := (files w)(str_path p := None)\<rparr>"

definition rename :: "path \<Rightarrow> path \<Rightarrow> world \<Rightarrow> error + world" where
  "rename src dst w =
     (case files w (str_path src) of
        None \<Rightarrow> Inl FileNotFoundError
      | Some c \<Rightarrow> Inr (w\<lparr>files := ((files w)(str_path src := None))(str_path dst \<mapsto> c)\<rparr>))"

definition ensure_parent :: "path \<Rightarrow> world \<Rightarrow> world" where
  "ensure_parent p w = w"

subsection \<open>\<^verbatim>\<open>str(n)\<close> for integers\<close>

definition digit_char :: "nat \<Rightarrow> char" where
  "digit_char d = ''0123456789'' ! d"

function str_nat :: "nat \<Rightarrow> string" where
  "str_nat n = (if n < 10 then [digit_char n] else str_nat (n div 10) @ [digit_char (n mod 10)])"
  by pat_completeness auto
termination
  by (relation "measure (\<lambda>n. n)") auto

declare str_nat.simps [simp del]

definition str_int :: "int \<Rightarrow> string" where
  "str_int i = (if i < 0 then CHR ''-'' # str_nat (nat (- i)) else str_nat (nat i))"

section \<open>Repair actions (lines 141-176)\<close>

definition wrap_raw_cmd :: "path \<Rightarrow> path \<Rightarrow> int \<Rightarrow> string list" where
  "wrap_raw_cmd src dst fps =
     [''ffmpeg'', ''-y'', ''-hide_banner'', ''-loglevel'', ''error'', ''-fflags'', ''+genpts'',
      ''-framerate'', str_int fps, ''-i'', str_path src, ''-c'', ''copy'', str_path dst]"

definition wrap_raw :: "tool \<Rightarrow> path \<Rightarrow> path \<Rightarrow> int \<Rightarrow> world \<Rightarrow> bool \<times> world" where
  "wrap_raw tool src dst fps w =
     (case run tool (wrap_raw_cmd src dst fps) (ensure_parent dst w) of
        (rc, w') \<Rightarrow> (rc = 0 \<and> path_exists w' dst \<and> size_positive w' dst, w'))"

definition remux_to_mkv_cmd :: "path \<Rightarrow> path \<Rightarrow> string list" where
  "remux_to_mkv_cmd src dst =
     [''ffmpeg'', ''-y'', ''-hide_banner'', ''-loglevel'', ''error'', ''-fflags'', ''+genpts'',
      ''-analyzeduration'', ''200M'', ''-probesize'', ''200M'', ''-i'', str_path src,
      ''-c'', ''copy'', str_path dst]"

definition remux_to_mkv :: "tool \<Rightarrow> path \<Rightarrow> path \<Rightarrow> world \<Rightarrow> bool \<times> world" where
  "remux_to_mkv tool src dst w =
     (case run tool (remux_to_mkv_cmd src dst) (ensure_parent dst w) of
        (rc, w') \<Rightarrow> (rc = 0 \<and> path_exists w' dst \<and> size_positive w' dst, w'))"

definition mp4_faststart_timescale_cmd :: "path \<Rightarrow> path \<Rightarrow> string list" where
  "mp4_faststart_timescale_cmd src dst =
     [''ffmpeg'', ''-y'', ''-hide_banner'', ''-loglevel'', ''error'', ''-fflags'', ''+genpts'',
      ''-i'', str_path src, ''-c'', ''copy'', ''-movflags'', ''+faststart'',
      ''-video_track_timescale'', ''90000'', str_path dst]"

definition mp4_faststart_timescale :: "tool \<Rightarrow> path \<Rightarrow> path \<Rightarrow> world \<Rightarrow> bool \<times> world" where
  "mp4_faststart_timescale tool src dst w =
     (case run tool (mp4_faststart_timescale_cmd src dst) (ensure_parent dst w) of
        (rc, w') \<Rightarrow> (rc = 0 \<and> path_exists w' dst \<and> size_positive w' dst, w'))"

definition reencode_cfr_cmd :: "path \<Rightarrow> path \<Rightarrow> bool \<Rightarrow> int option \<Rightarrow> string list" where
  "reencode_cfr_cmd src dst out_mkv fps_in =
     [''ffmpeg'', ''-y'', ''-hide_banner'', ''-loglevel'', ''error'', ''-fflags'', ''+genpts'']
     @ (case fps_in of
          None \<Rightarrow> []
        | Some f \<Rightarrow> if f \<noteq> 0 then [''-framerate'', str_int f] else [])
     @ [''-i'', str_path src,
        ''-map'', ''0:v:0?'', ''-map'', ''0:a:0?'',
        ''-vf'', ''setpts=PTS-STARTPTS'',
        ''-fps_mode'', ''cfr'',
        ''-c:v'', ''libx264'', ''-preset'', ''veryfast'', ''-crf'', ''20'', ''-pix_fmt'', ''yuv420p'',
        ''-c:a'', ''aac'', ''-b:a'', ''128k'']
     @ (if \<not> out_mkv then [''-movflags'', ''+faststart''] else [])
     @ [str_path dst]"

definition reencode_cfr ::
  "tool \<Rightarrow> path \<Rightarrow> path \<Rightarrow> bool \<Rightarrow> int option \<Rightarrow> world \<Rightarrow> bool \<times> world"
where
  "reencode_cfr tool src dst out_mkv fps_in w =
     (case run tool (reencode_cfr_cmd src dst out_mkv fps_in) (ensure_parent dst w) of
        (rc, w') \<Rightarrow> (rc = 0 \<and> path_exists w' dst \<and> size_positive w' dst, w'))"

section \<open>Per-file pipeline (lines 179-253)\<close>

text \<open>
  The in-place replacement is written four times in the source (lines 202-206, 217-221,
  230-234 and 245-249) with only the final name differing; \<open>replace_inplace\<close> is that block. It
  returns the final path, or the exception that left the block.
\<close>

type_synonym presult = "string \<times> string \<times> string \<times> string option"

definition replace_inplace ::
  "path \<Rightarrow> path \<Rightarrow> error + path \<Rightarrow> world \<Rightarrow> (error + path) \<times> world"
where
  "replace_inplace p tmp final w =
     (case with_suffix p (suffix p @ ''.bak'') of
        Inl e \<Rightarrow> (Inl e, w)
      | Inr bak \<Rightarrow>
          let w1 = unlink_ignoring_errors bak w in
          (case rename p bak w1 of
             Inl e \<Rightarrow> (Inl e, w1)
           | Inr w2 \<Rightarrow>
               (case final of
                  Inl e \<Rightarrow> (Inl e, w2)
                | Inr fin \<Rightarrow>
                    (case rename tmp fin w2 of
                       Inl e \<Rightarrow> (Inl e, w2)
                     | Inr w3 \<Rightarrow> (Inr fin, w3)))))"

text \<open>The loop over the candidate frame rates of the WRAP branch (lines 196-209).\<close>

fun wrap_loop ::
  "tool \<Rightarrow> path \<Rightarrow> string \<Rightarrow> bool \<Rightarrow> string \<Rightarrow> int list \<Rightarrow> world \<Rightarrow> (error + presult) \<times> world"
where
  "wrap_loop tool p verdict inplace ext_out [] w =
     (Inr (verdict, ''wrap_failed'', [], Some ''Falha ao embrulhar RAW com FPS tentados.''), w)"
| "wrap_loop tool p verdict inplace ext_out (fps # rest) w =
     (case (if inplace then Inr p
            else with_name p (stem p @ ''_wrapped'' @ str_int fps @ ext_out)) of
        Inl e \<Rightarrow> (Inl e, w)
      | Inr dst \<Rightarrow>
          (case (if \<not> inplace then Inr dst
                 else with_name p (stem p @ ''_wrapped_tmp'' @ ext_out)) of
             Inl e \<Rightarrow> (Inl e, w)
           | Inr tmp \<Rightarrow>
               (case wrap_raw tool p tmp fps w of
                  (ok, w1) \<Rightarrow>
                    if ok then
                      (if inplace then
                         (case replace_inplace p tmp (with_suffix p ext_out) w1 of
                            (Inl e, w2) \<Rightarrow> (Inl e, w2)
                          | (Inr fin, w2) \<Rightarrow>
                              (Inr (verdict, ''wrap('' @ str_int fps @ '') inplace'',
                                    str_path fin, None), w2))
                       else
                         (Inr (verdict, ''wrap('' @ str_int fps @ '')'', str_path tmp, None), w1))
                    else wrap_loop tool p verdict inplace ext_out rest w1)))"

text \<open>
  The loop of the CFR re-encode over \<^verbatim>\<open>[None, *try_fps]\<close> (lines 239-251), and the return
  of line 253 after it.
\<close>

definition fps_label :: "int option \<Rightarrow> string" where
  "fps_label fps_in =
     (case fps_in of None \<Rightarrow> ''auto'' | Some f \<Rightarrow> if f \<noteq> 0 then str_int f else ''auto'')"

fun reencode_loop ::
  "tool \<Rightarrow> path \<Rightarrow> string \<Rightarrow> bool \<Rightarrow> bool \<Rightarrow> string \<Rightarrow> int option list \<Rightarrow> world \<Rightarrow>
   (error + presult) \<times> world"
where
  "reencode_loop tool p verdict inplace prefer_mkv ext_out [] w =
     (Inr (verdict, ''reencode_failed'', [], Some ''Re-encode CFR falhou com todos os FPS.''), w)"
| "reencode_loop tool p verdict inplace prefer_mkv ext_out (fps_in # rest) w =
     (case (if inplace then Inr p else with_name p (stem p @ ''_reenc'' @ ext_out)) of
        Inl e \<Rightarrow> (Inl e, w)
      | Inr dst \<Rightarrow>
          (case (if \<not> inplace then Inr dst
                 else with_name p (stem p @ ''_reenc_tmp'' @ ext_out)) of
             Inl e \<Rightarrow> (Inl e, w)
           | Inr tmp \<Rightarrow>
               (case reencode_cfr tool p tmp prefer_mkv fps_in w of
                  (ok, w1) \<Rightarrow>
                    if ok then
                      (if inplace then
                         (case replace_inplace p tmp (with_suffix p ext_out) w1 of
                            (Inl e, w2) \<Rightarrow> (Inl e, w2)
                          | (Inr fin, w2) \<Rightarrow>
                              (Inr (verdict, ''reencode_cfr('' @ fps_label fps_in @ '') inplace'',
                                    str_path fin, None), w2))
                       else
                         (Inr (verdict, ''reencode_cfr('' @ fps_label fps_in @ '')'',
                               str_path tmp, None), w1))
                    else reencode_loop tool p verdict inplace prefer_mkv ext_out rest w1)))"

text \<open>The FIX part of \<open>process_one\<close> (lines 211-253).\<close>

definition process_fix ::
  "tool \<Rightarrow> path \<Rightarrow> string \<Rightarrow> int list \<Rightarrow> bool \<Rightarrow> bool \<Rightarrow> string \<Rightarrow> world \<Rightarrow>
   (error + presult) \<times> world"
where
  "process_fix tool p verdict try_fps inplace prefer_mkv ext_out w =
     (case (if inplace then Inr p else with_name p (stem p @ ''_fixed.mkv'')) of
        Inl e \<Rightarrow> (Inl e, w)
      | Inr mkv_dst \<Rightarrow>
     (case (if \<not> inplace then Inr mkv_dst else with_name p (stem p @ ''_fixed_tmp.mkv'')) of
        Inl e \<Rightarrow> (Inl e, w)
      | Inr mkv_tmp \<Rightarrow>
     (case remux_to_mkv tool p mkv_tmp w of
        (ok1, w1) \<Rightarrow>
          if ok1 then
            (if inplace then
               (case replace_inplace p mkv_tmp (with_suffix p ''.mkv'') w1 of
                  (Inl e, w2) \<Rightarrow> (Inl e, w2)
                | (Inr fin, w2) \<Rightarrow>
                    (Inr (verdict, ''remux_mkv inplace'', str_path fin, None), w2))
             else (Inr (verdict, ''remux_mkv'', str_path mkv_tmp, None), w1))
          else
     (case (if inplace then Inr p else with_name p (stem p @ ''_fixed.mp4'')) of
        Inl e \<Rightarrow> (Inl e, w1)
      | Inr mp4_dst \<Rightarrow>
     (case (if \<not> inplace then Inr mp4_dst else with_name p (stem p @ ''_fixed_tmp.mp4'')) of
        Inl e \<Rightarrow> (Inl e, w1)
      | Inr mp4_tmp \<Rightarrow>
     (case mp4_faststart_timescale tool p mp4_tmp w1 of
        (ok2, w2) \<Rightarrow>
          if ok2 then
            (if inplace then
               (case replace_inplace p mp4_tmp (Inr p) w2 of
                  (Inl e, w3) \<Rightarrow> (Inl e, w3)
                | (Inr fin, w3) \<Rightarrow>
                    (Inr (verdict, ''mp4_faststart_timescale inplace'', str_path fin, None), w3))
             else (Inr (verdict, ''mp4_faststart_timescale'', str_path mp4_tmp, None), w2))
          else
            reencode_loop tool p verdict inplace prefer_mkv ext_out
              (None # map Some try_fps) w2))))))"

text \<open>
  \<open>process_one\<close> calls \<open>verdict_for_file\<close> through the module-level name, which \<open>main\<close>
  rebinds to pass its tolerance (lines 277-281); the tolerance is the parameter \<open>tol\<close>.
\<close>

definition process_one ::
  "float_arith \<Rightarrow> pyfloat \<Rightarrow> (path \<Rightarrow> probe_json option) \<Rightarrow> (path \<Rightarrow> string list option) \<Rightarrow> tool \<Rightarrow> real \<Rightarrow>
   path \<Rightarrow> int list \<Rightarrow> bool \<Rightarrow> bool \<Rightarrow> bool \<Rightarrow> world \<Rightarrow> (error + presult) \<times> world"
where
  "process_one fa fl ffprobe_json packet_lines tool tol p try_fps dry_run inplace prefer_mkv w =
     (case verdict_for_file fa fl ffprobe_json packet_lines p tol of
        (verdict, reason, extra) \<Rightarrow>
          let ext_out = (if prefer_mkv then ''.mkv'' else ''.mp4'') in
          if verdict = ''OK'' then (Inr (verdict, ''none'', [], None), w)
          else if dry_run then (Inr (verdict, ''planned'', [], None), w)
          else if verdict = ''WRAP'' then wrap_loop tool p verdict inplace ext_out try_fps w
          else process_fix tool p verdict try_fps inplace prefer_mkv ext_out w)"

text \<open>
  The body of the loop of \<open>main\<close> for one target (lines 290-304): the verdict, and the
  pipeline only for a WRAP or FIX verdict outside a dry run. The result is the action, the
  output path and the error detail of the report row.
\<close>

definition main_target ::
  "float_arith \<Rightarrow> pyfloat \<Rightarrow> (path \<Rightarrow> probe_json option) \<Rightarrow> (path \<Rightarrow> string list option) \<Rightarrow> tool \<Rightarrow> real \<Rightarrow>
   path \<Rightarrow> int list \<Rightarrow> bool \<Rightarrow> bool \<Rightarrow> bool \<Rightarrow> world \<Rightarrow>
   (error + string \<times> string \<times> string option) \<times> world"
where
  "main_target fa fl ffprobe_json packet_lines tool tol p try_fps dry_run inplace prefer_mkv w =
     (case verdict_for_file fa fl ffprobe_json packet_lines p tol of
        (verdict, reason, extra) \<Rightarrow>
          if verdict \<in> {''WRAP'', ''FIX''} \<and> \<not> dry_run then
            (case process_one fa fl ffprobe_json packet_lines tool tol p try_fps dry_run inplace
                    prefer_mkv w of
               (Inl e, w') \<Rightarrow> (Inl e, w')
             | (Inr (verdict2, action, outpath, err), w') \<Rightarrow> (Inr (action, outpath, err), w'))
          else (Inr (''none'', [], None), w))"

section \<open>The specification's wording, for comparison with the code\<close>

text \<open>
  Duration resolution as section 4.1 of the specification words it: the container-level
  duration when it is present and parses, otherwise the maximum of the stream durations
  greater than zero, and null when there is none.
\<close>

definition spec_stream_durations :: "pyfloat \<Rightarrow> stream_info list \<Rightarrow> real list" where
  "spec_stream_durations fl streams =
     filter (\<lambda>sv. sv > 0)
       (List.map_filter
          (\<lambda>st. case st_duration st of None \<Rightarrow> None | Some sd \<Rightarrow> fl sd) streams)"

definition spec_duration :: "pyfloat \<Rightarrow> fmt_info \<Rightarrow> stream_info list \<Rightarrow> real option" where
  "spec_duration fl fmt streams =
     (case (case fmt_duration fmt of None \<Rightarrow> None | Some d \<Rightarrow> fl d) of
        Some d \<Rightarrow> Some d
      | None \<Rightarrow>
          (case spec_stream_durations fl streams of
             [] \<Rightarrow> None
           | x # xs \<Rightarrow> Some (fold max xs x)))"

text \<open>The timestamps the sampler parses, in the order of the lines.\<close>

definition parsed_pts :: "pyfloat \<Rightarrow> string list \<Rightarrow> real list" where
  "parsed_pts fl ls =
     List.map_filter (\<lambda>l. if strip l = [] then None else fl (strip l)) ls"

text \<open>
  The FIX strategy chain as section 4.4 and the design notes word it: an ordered list of
  strategies, each a separate external invocation, iterated with early exit at the first
  success, and the failure outcome when the list is exhausted.
\<close>

datatype strategy = Remux | Faststart | ReencodeCFR "int option"

definition fix_strategies :: "int list \<Rightarrow> strategy list" where
  "fix_strategies try_fps = Remux # Faststart # map ReencodeCFR (None # map Some try_fps)"

definition target_name :: "path \<Rightarrow> bool \<Rightarrow> string \<Rightarrow> strategy \<Rightarrow> string" where
  "target_name p inplace ext_out s =
     stem p @
     (case s of
        Remux \<Rightarrow> if inplace then ''_fixed_tmp.mkv'' else ''_fixed.mkv''
      | Faststart \<Rightarrow> if inplace then ''_fixed_tmp.mp4'' else ''_fixed.mp4''
      | ReencodeCFR f \<Rightarrow> (if inplace then ''_reenc_tmp'' else ''_reenc'') @ ext_out)"

definition strategy_cmd :: "path \<Rightarrow> path \<Rightarrow> bool \<Rightarrow> strategy \<Rightarrow> string list" where
  "strategy_cmd p tmp prefer_mkv s =
     (case s of
        Remux \<Rightarrow> remux_to_mkv_cmd p tmp
      | Faststart \<Rightarrow> mp4_faststart_timescale_cmd p tmp
      | ReencodeCFR f \<Rightarrow> reencode_cfr_cmd p tmp prefer_mkv f)"

definition strategy_final :: "path \<Rightarrow> string \<Rightarrow> strategy \<Rightarrow> error + path" where
  "strategy_final p ext_out s =
     (case s of
        Remux \<Rightarrow> with_suffix p ''.mkv''
      | Faststart \<Rightarrow> Inr p
      | ReencodeCFR f \<Rightarrow> with_suffix p ext_out)"


definition strategy_tag :: "strategy \<Rightarrow> string" where
  "strategy_tag s =
     (case s of
        Remux \<Rightarrow> ''remux_mkv''
      | Faststart \<Rightarrow> ''mp4_faststart_timescale''
      | ReencodeCFR f \<Rightarrow> ''reencode_cfr('' @ fps_label f @ '')'')"

definition out_ext :: "bool \<Rightarrow> string" where
  "out_ext prefer_mkv = (if prefer_mkv then ''.mkv'' else ''.mp4'')"

definition attempt :: "tool \<Rightarrow> path \<Rightarrow> path \<Rightarrow> bool \<Rightarrow> strategy \<Rightarrow> world \<Rightarrow> bool \<times> world" where
  "attempt tool p tmp prefer_mkv s w =
     (case run tool (strategy_cmd p tmp prefer_mkv s) w of
        (rc, w') \<Rightarrow> (rc = 0 \<and> path_exists w' tmp \<and> size_positive w' tmp, w'))"

fun spec_fix_chain ::
  "tool \<Rightarrow> path \<Rightarrow> bool \<Rightarrow> bool \<Rightarrow> strategy list \<Rightarrow> world \<Rightarrow> (error + presult) \<times> world"
where
  "spec_fix_chain tool p inplace prefer_mkv [] w =
     (Inr (''FIX'', ''reencode_failed'', [], Some ''Re-encode CFR falhou com todos os FPS.''), w)"
| "spec_fix_chain tool p inplace prefer_mkv (s # ss) w =
     (case with_name p (target_name p inplace (out_ext prefer_mkv) s) of
        Inl e \<Rightarrow> (Inl e, w)
      | Inr tmp \<Rightarrow>
          (case attempt tool p tmp prefer_mkv s w of
             (ok, w1) \<Rightarrow>
               if \<not> ok then spec_fix_chain tool p inplace prefer_mkv ss w1
               else if inplace then
                 (case replace_inplace p tmp (strategy_final p (out_ext prefer_mkv) s) w1 of
                    (Inl e, w2) \<Rightarrow> (Inl e, w2)
                  | (Inr fin, w2) \<Rightarrow>
                      (Inr (''FIX'', strategy_tag s @ '' inplace'', str_path fin, None), w2))
               else (Inr (''FIX'', strategy_tag s, str_path tmp, None), w1)))"

text \<open>Every strategy of the list is attempted and none satisfies the success criterion.\<close>

fun all_fail :: "tool \<Rightarrow> path \<Rightarrow> bool \<Rightarrow> bool \<Rightarrow> strategy list \<Rightarrow> world \<Rightarrow> bool" where
  "all_fail tool p inplace prefer_mkv [] w = True"
| "all_fail tool p inplace prefer_mkv (s # ss) w =
     (case attempt tool p
             (Path (dir_prefix p) (target_name p inplace (out_ext prefer_mkv) s)) prefer_mkv s w of
        (ok, w1) \<Rightarrow> \<not> ok \<and> all_fail tool p inplace prefer_mkv ss w1)"

text \<open>The command lines of the chain, in its order.\<close>

definition chain_cmds :: "path \<Rightarrow> bool \<Rightarrow> bool \<Rightarrow> int list \<Rightarrow> string list list" where
  "chain_cmds p inplace prefer_mkv try_fps =
     map (\<lambda>s. strategy_cmd p
                 (Path (dir_prefix p) (target_name p inplace (out_ext prefer_mkv) s)) prefer_mkv s)
       (fix_strategies try_fps)"

text \<open>
  For the in-place replacement: the backup path, the state after a list of command lines has
  been run one after the other, and the command lines of the in-place WRAP loop, one for each
  candidate frame rate.
\<close>

definition backup_path :: "path \<Rightarrow> path" where
  "backup_path p = Path (dir_prefix p) (name p @ ''.bak'')"

definition run_all :: "tool \<Rightarrow> string list list \<Rightarrow> world \<Rightarrow> world" where
  "run_all tool cmds w = foldl (\<lambda>w' cmd. snd (run tool cmd w')) w cmds"

definition wrap_cmds :: "path \<Rightarrow> bool \<Rightarrow> int list \<Rightarrow> string list list" where
  "wrap_cmds p prefer_mkv try_fps =
     map (wrap_raw_cmd p
            (Path (dir_prefix p) (stem p @ ''_wrapped_tmp'' @ out_ext prefer_mkv)))
       try_fps"

text \<open>
  Assumptions on the arguments and the environment: the path names a file (a non-empty final
  component without separator), and the muxer/encoder writes no file but its destination,
  the last word of its command line.
\<close>

definition file_path :: "path \<Rightarrow> bool" where
  "file_path p = (name p \<noteq> [] \<and> CHR ''/'' \<notin> set (name p))"

definition writes_only_destination :: "tool \<Rightarrow> bool" where
  "writes_only_destination tool =
     (\<forall>cmd fs k. k = last cmd \<or> snd (tool cmd fs) k = fs k)"

section \<open>Concrete inputs\<close>

text \<open>
  A restriction of \<^verbatim>\<open>float\<close> to non-empty strings of decimal digits, on which it agrees with
  the builtin; it stands for the builtin at the concrete inputs below.
\<close>

definition digit_val :: "char \<Rightarrow> nat option" where
  "digit_val c = map_of (zip ''0123456789'' [0, 1, 2, 3, 4, 5, 6, 7, 8, 9]) c"

fun parse_digits :: "string \<Rightarrow> nat \<Rightarrow> nat option" where
  "parse_digits [] acc = Some acc"
| "parse_digits (c # cs) acc =
     (case digit_val c of None \<Rightarrow> None | Some d \<Rightarrow> parse_digits cs (10 * acc + d))"

definition digits_float :: pyfloat where
  "digits_float s = (if s = [] then None else map_option real (parse_digits s 0))"

text \<open>
  The binary64 values denoted by \<^verbatim>\<open>0.20\<close> (the default tolerance of lines 94 and 260) and by
  \<^verbatim>\<open>0.4\<close>, and binary64 subtraction and division at the operands that occur in the concrete
  inputs below: \<^verbatim>\<open>4 - 0.4\<close> is rounded to \<^verbatim>\<open>3.6\<close>, and \<^verbatim>\<open>0.6000000000000001 / 3\<close> to
  \<^verbatim>\<open>0.20000000000000004\<close>; every other result there is exact.
\<close>

definition tol_default :: real where
  "tol_default = 3602879701896397 / 18014398509481984"

definition b64_0_4 :: real where
  "b64_0_4 = 3602879701896397 / 9007199254740992"

definition b64_3_6 :: real where
  "b64_3_6 = 8106479329266893 / 2251799813685248"

definition b64_0_6 :: real where
  "b64_0_6 = 1351079888211149 / 2251799813685248"

definition b64_0_2 :: real where
  "b64_0_2 = 7205759403792795 / 36028797018963968"

definition binary64_sample :: float_arith where
  "binary64_sample =
     \<lparr>fsub = (\<lambda>a b. if a = 4 \<and> b = b64_0_4 then b64_3_6 else a - b),
      fdiv = (\<lambda>a b. if a = b64_0_6 \<and> b = 3 then b64_0_2 else a / b)\<rparr>"

definition sample_float :: pyfloat where
  "sample_float s = (if s = ''0.4'' then Some b64_0_4 else digits_float s)"

definition two_streams :: "stream_info list" where
  "two_streams =
     [\<lparr>codec_type = Some ''video'', codec_name = Some ''h264'', st_duration = Some ''5''\<rparr>,
      \<lparr>codec_type = Some ''audio'', codec_name = Some ''aac'', st_duration = Some ''10''\<rparr>]"

definition avi_fmt :: "string option \<Rightarrow> fmt_info" where
  "avi_fmt d = \<lparr>fmt_duration = d, fmt_format_name = Some ''avi'', fmt_start_time = None\<rparr>"

definition probe_streams_only :: "path \<Rightarrow> probe_json option" where
  "probe_streams_only p =
     Some \<lparr>pj_format = Val (avi_fmt None), pj_streams = Val two_streams,
           pj_other_keys = False\<rparr>"

definition probe_ten :: "path \<Rightarrow> probe_json option" where
  "probe_ten p =
     Some \<lparr>pj_format = Val (avi_fmt (Some ''10'')), pj_streams = Val two_streams,
           pj_other_keys = False\<rparr>"

definition probe_three :: "path \<Rightarrow> probe_json option" where
  "probe_three p =
     Some \<lparr>pj_format = Val (avi_fmt (Some ''3'')), pj_streams = Val two_streams,
           pj_other_keys = False\<rparr>"

definition probe_nulls :: "path \<Rightarrow> probe_json option" where
  "probe_nulls p = Some \<lparr>pj_format = Null, pj_streams = Null, pj_other_keys = False\<rparr>"

definition probe_none :: "path \<Rightarrow> probe_json option" where
  "probe_none p = None"

definition lines_0_10 :: "path \<Rightarrow> string list option" where
  "lines_0_10 p = Some [''0'', ''N/A'', '' 10 '']"

definition lines_04_4 :: "path \<Rightarrow> string list option" where
  "lines_04_4 p = Some [''0.4'', ''4'']"

definition lines_one :: "path \<Rightarrow> string list option" where
  "lines_one p = Some ['''', ''7'', ''N/A'']"

definition lines_none :: "path \<Rightarrow> string list option" where
  "lines_none p = None"

definition cam_avi :: path where
  "cam_avi = Path ''/rec/'' ''cam.avi''"

definition cam_h264 :: path where
  "cam_h264 = Path ''/rec/'' ''cam.H264''"

definition one_file :: "path \<Rightarrow> world" where
  "one_file p = \<lparr>files = [str_path p \<mapsto> ''original''], invoked = []\<rparr>"

text \<open>
  Three behaviours of the muxer/encoder: one that always fails and writes nothing, one that
  always writes its destination and exits with zero, and one whose stream copies fail (the
  remux leaving a partial output behind) and whose re-encode works.
\<close>

definition failing_tool :: tool where
  "failing_tool cmd fs = (1, fs)"

definition working_tool :: tool where
  "working_tool cmd fs = (0, fs(last cmd \<mapsto> ''repaired''))"


definition empty_output_tool :: tool where
  "empty_output_tool cmd fs = (0, fs(last cmd \<mapsto> []))"

section \<open>Evaluation of the concrete inputs\<close>

lemmas demo_eval =
  digits_float_def digit_val_def two_streams_def avi_fmt_def probe_streams_only_def probe_ten_def
  probe_none_def lines_0_10_def lines_one_def lines_none_def cam_avi_def cam_h264_def
  lower_def lower_char_def suffix_def stem_def RAW_EXTS_def strip_def is_space_def

lemmas b64_eval =
  tol_default_def b64_0_4_def b64_3_6_def b64_0_6_def b64_0_2_def lit_0_001_def lit_1e_6_def

lemma cam_avi_not_raw: "lower (suffix cam_avi) \<notin> RAW_EXTS"
  by (simp add: demo_eval)

lemma cam_h264_raw: "lower (suffix cam_h264) = ''.h264''"
  by (simp add: demo_eval)

lemma meta_ten:
  "get_meta digits_float probe_ten cam_avi = (Some 10, Some ''avi'', Some ''h264'', None)"
  by (simp add: get_meta_def demo_eval Let_def)

lemma meta_three:
  "get_meta sample_float probe_three cam_avi = (Some 3, Some ''avi'', Some ''h264'', None)"
  by (simp add: get_meta_def sample_float_def probe_three_def demo_eval Let_def)

lemma meta_none: "get_meta digits_float probe_none cam_avi = (None, None, None, None)"
  by (simp add: get_meta_def demo_eval Let_def)

lemma meta_nulls: "get_meta digits_float probe_nulls cam_avi = (None, Some [], None, None)"
  by (simp add: get_meta_def probe_nulls_def empty_fmt_def Let_def)

lemma pts_0_10: "get_packet_first_last_pts digits_float lines_0_10 cam_avi = (Some 0, Some 10)"
  by (simp add: get_packet_first_last_pts_def demo_eval Let_def)

lemma pts_04_4:
  "get_packet_first_last_pts sample_float lines_04_4 cam_avi = (Some b64_0_4, Some 4)"
  by (simp add: get_packet_first_last_pts_def sample_float_def lines_04_4_def demo_eval Let_def)

lemma pts_none: "get_packet_first_last_pts digits_float lines_none cam_avi = (None, None)"
  by (simp add: get_packet_first_last_pts_def demo_eval Let_def)

lemma sample_sub_10_0: "fsub binary64_sample 10 0 = 10"
  by (simp add: binary64_sample_def)

lemma sample_divergence:
  "fdiv binary64_sample \<bar>fsub binary64_sample (max 0 (fsub binary64_sample 4 b64_0_4)) 3\<bar>
     (max 3 lit_1e_6) = b64_0_2"
  by (simp add: binary64_sample_def b64_eval)

text \<open>
  Claim C2. A file whose lower-cased extension is a raw-bitstream extension gets the verdict
  WRAP with the extension as its only diagnostic, whatever the inspector, the packet lister,
  the float parser, the float arithmetic and the tolerance are: the result does not mention
  them, so neither the probe nor the packet sampling is consulted.
\<close>

theorem raw_extension_wrap:
  "lower (suffix p) \<in> RAW_EXTS \<Longrightarrow>
   verdict_for_file fa fl ffprobe_json packet_lines p tol =
     (''WRAP'', RawBitstream (lower (suffix p)), [''ext'' \<mapsto> DStr (lower (suffix p))])"
  by (simp add: verdict_for_file_def Let_def)

theorem raw_extension_wrap_witness:
  "lower (suffix cam_h264) \<in> RAW_EXTS \<and>
   verdict_for_file binary64_sample digits_float probe_ten lines_0_10 cam_h264 tol_default =
     (''WRAP'', RawBitstream ''.h264'', [''ext'' \<mapsto> DStr ''.h264''])"
proof -
  have h: "lower (suffix cam_h264) \<in> RAW_EXTS" by (simp add: cam_h264_raw RAW_EXTS_def)
  from raw_extension_wrap
    [OF h, of binary64_sample digits_float probe_ten lines_0_10 tol_default] h
  show ?thesis by (simp add: cam_h264_raw)
qed

text \<open>
  Claim C1. The probe and the sampler run only past the raw-extension check of line 100. When
  they give a duration \<open>m\<close> above 0.001 and timestamps \<open>f < l\<close>, the verdict is FIX exactly when
  the divergence \<open>|max(0, l - f) - m| / max(m, 1e-6)\<close>, computed with the float subtraction and
  division, exceeds the tolerance or the container contains "mpeg" with an h264 or hevc video
  codec, and OK otherwise; so the bad combination alone forces FIX, also at divergence zero.
  At duration 3, timestamps 0.4 and 4 and tolerance 0.20 the binary64 divergence is
  0.20000000000000004 and the verdict FIX.
\<close>

theorem verdict_with_duration_and_timeline:
  assumes "lower (suffix p) \<notin> RAW_EXTS"
    and "get_meta fl ffprobe_json p = (Some m, container, vcodec, start_time)"
    and "m > lit_0_001"
    and "get_packet_first_last_pts fl packet_lines p = (Some f, Some l)"
    and "l > f"
  shows "fst (verdict_for_file fa fl ffprobe_json packet_lines p t) =
     (if fdiv fa \<bar>fsub fa (max 0 (fsub fa l f)) m\<bar> (max m lit_1e_6) > t
         \<or> (contains ''mpeg'' (case container of None \<Rightarrow> [] | Some c \<Rightarrow> c)
            \<and> vcodec \<in> {Some ''h264'', Some ''hevc''})
      then ''FIX'' else ''OK'')"
  using assms by (simp add: verdict_for_file_def Let_def unusable_def)

theorem verdict_with_duration_and_timeline_witness:
  "lower (suffix cam_avi) \<notin> RAW_EXTS
   \<and> get_meta sample_float probe_three cam_avi = (Some 3, Some ''avi'', Some ''h264'', None)
   \<and> (3::real) > lit_0_001
   \<and> get_packet_first_last_pts sample_float lines_04_4 cam_avi = (Some b64_0_4, Some 4)
   \<and> (4::real) > b64_0_4
   \<and> fdiv binary64_sample \<bar>fsub binary64_sample (max 0 (fsub binary64_sample 4 b64_0_4)) 3\<bar>
        (max 3 lit_1e_6) = b64_0_2
   \<and> b64_0_2 > tol_default
   \<and> fst (verdict_for_file binary64_sample sample_float probe_three lines_04_4 cam_avi
            tol_default) = ''FIX''"
proof -
  have a: "(3::real) > lit_0_001" and b: "(4::real) > b64_0_4" and c: "b64_0_2 > tol_default"
    by (simp_all add: b64_eval)
  from verdict_with_duration_and_timeline
    [OF cam_avi_not_raw meta_three a pts_04_4 b, of binary64_sample tol_default] c
  have "fst (verdict_for_file binary64_sample sample_float probe_three lines_04_4 cam_avi
            tol_default) = ''FIX''"
    by (simp add: sample_divergence)
  with cam_avi_not_raw meta_three pts_04_4 a b c sample_divergence show ?thesis by simp
qed

text \<open>
  Claim C8. For a file that is not a raw bitstream and whose probed duration is null or at
  most 0.001, the verdict is FIX; the reason is the one of line 108 when a timestamp is
  missing or the last is not after the first, and otherwise the one of line 112, which carries
  the estimate \<open>lpts - fpts\<close> as the float subtraction gives it.
\<close>

theorem no_duration_fix:
  assumes "lower (suffix p) \<notin> RAW_EXTS"
    and "get_meta fl ffprobe_json p = (meta_dur, container, vcodec, start_time)"
    and "get_packet_first_last_pts fl packet_lines p = (fpts, lpts)"
    and "meta_dur = None \<or> (\<exists>m. meta_dur = Some m \<and> m \<le> lit_0_001)"
  shows "fst (verdict_for_file fa fl ffprobe_json packet_lines p t) = ''FIX''
     \<and> fst (snd (verdict_for_file fa fl ffprobe_json packet_lines p t)) =
         (if fpts = None \<or> lpts = None \<or> the lpts \<le> the fpts then NoMetaNoPts
          else NoMetaPktSuggest (fsub fa (the lpts) (the fpts)))"
  using assms
  by (auto simp add: verdict_for_file_def Let_def unusable_def split: option.splits)

theorem no_duration_fix_witness:
  "lower (suffix cam_avi) \<notin> RAW_EXTS
   \<and> get_meta digits_float probe_none cam_avi = (None, None, None, None)
   \<and> get_packet_first_last_pts digits_float lines_0_10 cam_avi = (Some 0, Some 10)
   \<and> fst (verdict_for_file binary64_sample digits_float probe_none lines_0_10 cam_avi
            tol_default) = ''FIX''
   \<and> fst (snd (verdict_for_file binary64_sample digits_float probe_none lines_0_10 cam_avi
                 tol_default)) = NoMetaPktSuggest 10"
proof -
  have d: "(None :: real option) = None
      \<or> (\<exists>m. (None :: real option) = Some m \<and> m \<le> lit_0_001)" by simp
  from no_duration_fix
    [OF cam_avi_not_raw meta_none pts_0_10 d, of binary64_sample tol_default]
    cam_avi_not_raw meta_none pts_0_10
  show ?thesis by (simp add: sample_sub_10_0)
qed

text \<open>
  Claim C7, as stated, at a raw bitstream: the WRAP branch returns a payload without the
  container and without the video codec.
\<close>

theorem wrap_diagnostics_counterexample:
  "fst (verdict_for_file binary64_sample digits_float probe_ten lines_0_10 cam_h264
          tol_default) = ''WRAP''
   \<and> snd (snd (verdict_for_file binary64_sample digits_float probe_ten lines_0_10 cam_h264
                 tol_default)) ''container'' = None
   \<and> snd (snd (verdict_for_file binary64_sample digits_float probe_ten lines_0_10 cam_h264
                 tol_default)) ''vcodec'' = None"
  by (simp add: verdict_for_file_def Let_def cam_h264_raw RAW_EXTS_def)

text \<open>
  Claim C7, amended. Every branch other than WRAP returns a payload that holds the container
  and the video codec of the probe; under \<^verbatim>\<open>meta_duration\<close> the probed duration, exactly when it
  is above 0.001; under \<^verbatim>\<open>pkt_duration\<close>, exactly when both timestamps are present with the last
  after the first, the packet duration computed on that branch, which is last minus first
  when there is no probed duration above 0.001 and the maximum of zero and last minus first
  otherwise; and no other key. The WRAP branch returns the extension alone.
\<close>

theorem diagnostics_payload:
  assumes "get_meta fl ffprobe_json p = (meta_dur, container, vcodec, start_time)"
    and "get_packet_first_last_pts fl packet_lines p = (fpts, lpts)"
    and "verdict_for_file fa fl ffprobe_json packet_lines p t = (verdict, reason, extra)"
  shows "if lower (suffix p) \<in> RAW_EXTS
     then verdict = ''WRAP'' \<and> extra = [''ext'' \<mapsto> DStr (lower (suffix p))]
     else verdict \<noteq> ''WRAP''
        \<and> extra ''container'' = Some (dstr container)
        \<and> extra ''vcodec'' = Some (dstr vcodec)
        \<and> extra ''meta_duration'' =
            (case meta_dur of
               None \<Rightarrow> None
             | Some m \<Rightarrow> if m \<le> lit_0_001 then None else Some (DFloat m))
        \<and> extra ''pkt_duration'' =
            (case fpts of
               None \<Rightarrow> None
             | Some f \<Rightarrow>
                 (case lpts of
                    None \<Rightarrow> None
                  | Some l \<Rightarrow>
                      if l \<le> f then None
                      else Some (DFloat
                        (case meta_dur of
                           None \<Rightarrow> fsub fa l f
                         | Some m \<Rightarrow>
                             if m \<le> lit_0_001 then fsub fa l f else max 0 (fsub fa l f)))))
        \<and> dom extra \<subseteq> {''container'', ''vcodec'', ''meta_duration'', ''pkt_duration''}"
proof (cases "lower (suffix p) \<in> RAW_EXTS")
  case True
  with assms(3) show ?thesis by (simp add: verdict_for_file_def Let_def)
next
  case False
  show ?thesis
  proof (cases "case meta_dur of None \<Rightarrow> True | Some m \<Rightarrow> m \<le> lit_0_001")
    case True
    with False assms show ?thesis
      by (auto simp add: verdict_for_file_def Let_def unusable_def
          split: option.splits if_splits)
  next
    case nometa: False
    with False assms show ?thesis
      by (auto simp add: verdict_for_file_def Let_def unusable_def
          split: option.splits if_splits)
  qed
qed

theorem diagnostics_payload_witness:
  "get_meta sample_float probe_three cam_avi = (Some 3, Some ''avi'', Some ''h264'', None)
   \<and> get_packet_first_last_pts sample_float lines_04_4 cam_avi = (Some b64_0_4, Some 4)
   \<and> lower (suffix cam_avi) \<notin> RAW_EXTS
   \<and> snd (snd (verdict_for_file binary64_sample sample_float probe_three lines_04_4 cam_avi
                 tol_default)) ''container'' = Some (DStr ''avi'')
   \<and> snd (snd (verdict_for_file binary64_sample sample_float probe_three lines_04_4 cam_avi
                 tol_default)) ''meta_duration'' = Some (DFloat 3)
   \<and> snd (snd (verdict_for_file binary64_sample sample_float probe_three lines_04_4 cam_avi
                 tol_default)) ''pkt_duration'' = Some (DFloat b64_3_6)"
proof -
  let ?v = "verdict_for_file binary64_sample sample_float probe_three lines_04_4 cam_avi
              tol_default"
  have v: "?v = (fst ?v, fst (snd ?v), snd (snd ?v))" by simp
  have a: "\<not> (3::real) \<le> lit_0_001" and b: "\<not> (4::real) \<le> b64_0_4"
    and c: "max 0 (fsub binary64_sample 4 b64_0_4) = b64_3_6"
    by (simp_all add: binary64_sample_def b64_eval)
  from diagnostics_payload [OF meta_three pts_04_4 v] cam_avi_not_raw a b c
  have "snd (snd ?v) ''container'' = Some (DStr ''avi'')
      \<and> snd (snd ?v) ''meta_duration'' = Some (DFloat 3)
      \<and> snd (snd ?v) ''pkt_duration'' = Some (DFloat b64_3_6)"
    by (simp add: dstr_def)
  with meta_three pts_04_4 cam_avi_not_raw show ?thesis by simp
qed

section \<open>Packet timeline sampler\<close>

lemma pts_loop_parsed:
  "pts_loop fl ls (f, l) =
     (case parsed_pts fl ls of
        [] \<Rightarrow> (f, l)
      | v # vs \<Rightarrow> ((if f = None then Some v else f), Some (last (v # vs))))"
proof (induction ls arbitrary: f l)
  case Nil
  then show ?case by (simp add: parsed_pts_def List.map_filter_simps)
next
  case (Cons a ls)
  then show ?case
    by (auto simp add: parsed_pts_def List.map_filter_simps Let_def
        split: option.splits list.splits)
qed

lemma pts_loop_both_or_neither:
  "(f = None \<longleftrightarrow> l = None) \<Longrightarrow> pts_loop fl ls (f, l) = (f', l') \<Longrightarrow> (f' = None \<longleftrightarrow> l' = None)"
  by (induction ls arbitrary: f l) (auto simp: Let_def split: if_splits option.splits)

text \<open>
  Claim C10. The sampler returns a null first timestamp exactly when it returns a null last
  timestamp, and lines with exactly one parseable timestamp \<open>v\<close> give \<open>v\<close> as both.
\<close>

theorem sampler_first_last:
  "(fst (get_packet_first_last_pts fl packet_lines p) = None
      \<longleftrightarrow> snd (get_packet_first_last_pts fl packet_lines p) = None)
   \<and> (\<forall>ls v. packet_lines p = Some ls \<and> parsed_pts fl ls = [v]
        \<longrightarrow> get_packet_first_last_pts fl packet_lines p = (Some v, Some v))"
proof (intro conjI allI impI)
  show "fst (get_packet_first_last_pts fl packet_lines p) = None
      \<longleftrightarrow> snd (get_packet_first_last_pts fl packet_lines p) = None"
  proof (cases "packet_lines p")
    case None
    then show ?thesis by (simp add: get_packet_first_last_pts_def)
  next
    case (Some ls)
    obtain f' l' where r: "pts_loop fl ls (None, None) = (f', l')" by force
    from pts_loop_both_or_neither [OF _ r] have "f' = None \<longleftrightarrow> l' = None" by simp
    with Some r show ?thesis by (simp add: get_packet_first_last_pts_def)
  qed
next
  fix ls v
  assume "packet_lines p = Some ls \<and> parsed_pts fl ls = [v]"
  then show "get_packet_first_last_pts fl packet_lines p = (Some v, Some v)"
    by (simp add: get_packet_first_last_pts_def pts_loop_parsed)
qed

theorem sampler_first_last_witness:
  "lines_one cam_avi = Some ['''', ''7'', ''N/A'']
   \<and> parsed_pts digits_float ['''', ''7'', ''N/A''] = [7]
   \<and> get_packet_first_last_pts digits_float lines_one cam_avi = (Some 7, Some 7)"
proof -
  have a: "lines_one cam_avi = Some ['''', ''7'', ''N/A'']" by (simp add: lines_one_def)
  have b: "parsed_pts digits_float ['''', ''7'', ''N/A''] = [7]"
    by (simp add: parsed_pts_def List.map_filter_simps demo_eval)
  from sampler_first_last [of digits_float lines_one cam_avi] a b
  have "get_packet_first_last_pts digits_float lines_one cam_avi = (Some 7, Some 7)"
    by blast
  with a b show ?thesis by simp
qed

section \<open>Metadata probe\<close>

lemma streams_loop_keeps_duration:
  "snd (streams_loop fl ss (v, Some d)) = Some d"
  by (induction ss arbitrary: v) (simp_all add: Let_def)

lemma get_meta_prefers_container:
  assumes "ffprobe_json p = Some data" and "pj_format data = Val fmt"
    and "fmt_duration fmt = Some s" and "fl s = Some d"
  shows "fst (get_meta fl ffprobe_json p) = Some d"
proof -
  obtain v where "streams_loop fl (case pj_streams data of Val ss \<Rightarrow> ss | _ \<Rightarrow> [])
      (None, Some d) = (v, Some d)"
    using streams_loop_keeps_duration [of fl _ None d] by (metis prod.collapse)
  with assms show ?thesis by (simp add: get_meta_def Let_def)
qed

text \<open>
  Claim C5. With no container-level duration and stream durations 5 and 10, the probe
  resolves the duration to 5, the first positive stream duration, where the maximum is 10:
  the fallback of lines 57-62 runs only while \<^verbatim>\<open>dur\<close> is null, so the \<^verbatim>\<open>max\<close> of line 62 is
  never taken.
\<close>

theorem stream_duration_fallback_is_first:
  "fst (get_meta digits_float probe_streams_only cam_avi) = Some 5
   \<and> spec_duration digits_float (avi_fmt None) two_streams = Some 10"
  by (simp add: get_meta_def spec_duration_def spec_stream_durations_def
      List.map_filter_simps demo_eval Let_def)

section \<open>Paths\<close>

lemma rfind_Some: "rfind c xs = Some i \<Longrightarrow> i < length xs \<and> xs ! i = c"
  by (induction xs arbitrary: i) (auto split: option.splits if_splits)

lemma stem_suffix: "stem p @ suffix p = name p"
  by (simp add: stem_def suffix_def split: option.splits)

lemma suffix_shape: "suffix p = [] \<or> (\<exists>r. suffix p = CHR ''.'' # r \<and> r \<noteq> [])"
proof (cases "rfind (CHR ''.'') (name p)")
  case None
  then show ?thesis by (simp add: suffix_def)
next
  case (Some i)
  show ?thesis
  proof (cases "0 < i \<and> i < length (name p) - 1")
    case True
    from rfind_Some [OF Some] have i: "i < length (name p)" "name p ! i = CHR ''.''" by simp_all
    then have "drop i (name p) = CHR ''.'' # drop (Suc i) (name p)"
      by (metis Cons_nth_drop_Suc)
    moreover from True have "drop (Suc i) (name p) \<noteq> []" by auto
    ultimately show ?thesis using Some True by (simp add: suffix_def)
  next
    case False
    with Some show ?thesis by (auto simp add: suffix_def)
  qed
qed

lemma set_stem: "set (stem p) \<subseteq> set (name p)"
  by (metis stem_suffix set_append Un_upper1)


lemma str_path_same_dir [simp]: "str_path (Path d a) = str_path (Path d b) \<longleftrightarrow> a = b"
  by (simp add: str_path_def)

section \<open>Repair actions\<close>

lemma criterion:
  "(case run tool cmd (ensure_parent dst w) of
      (rc, w') \<Rightarrow> (rc = 0 \<and> path_exists w' dst \<and> size_positive w' dst, w')) =
   ((fst (tool cmd (files w)) = 0
      \<and> (\<exists>c. snd (tool cmd (files w)) (str_path dst) = Some c \<and> c \<noteq> [])),
    w\<lparr>files := snd (tool cmd (files w)), invoked := invoked w @ [cmd]\<rparr>)"
  by (auto simp add: run_def ensure_parent_def path_exists_def size_positive_def st_size_def
      split: prod.splits option.splits)

text \<open>
  Claim C4. Each of the four repair actions (wrap, remux, faststart/timescale copy, CFR
  re-encode) reports success exactly when the external process exits with status zero and
  the destination exists afterwards with a size above zero; so a zero exit status with a
  missing or an empty destination is a failure.
\<close>

theorem success_criterion:
  "fst (wrap_raw tool src dst fps w) =
     (fst (tool (wrap_raw_cmd src dst fps) (files w)) = 0
      \<and> (\<exists>c. snd (tool (wrap_raw_cmd src dst fps) (files w)) (str_path dst) = Some c \<and> c \<noteq> []))
   \<and> fst (remux_to_mkv tool src dst w) =
     (fst (tool (remux_to_mkv_cmd src dst) (files w)) = 0
      \<and> (\<exists>c. snd (tool (remux_to_mkv_cmd src dst) (files w)) (str_path dst) = Some c \<and> c \<noteq> []))
   \<and> fst (mp4_faststart_timescale tool src dst w) =
     (fst (tool (mp4_faststart_timescale_cmd src dst) (files w)) = 0
      \<and> (\<exists>c. snd (tool (mp4_faststart_timescale_cmd src dst) (files w)) (str_path dst) = Some c
            \<and> c \<noteq> []))
   \<and> fst (reencode_cfr tool src dst out_mkv fps_in w) =
     (fst (tool (reencode_cfr_cmd src dst out_mkv fps_in) (files w)) = 0
      \<and> (\<exists>c. snd (tool (reencode_cfr_cmd src dst out_mkv fps_in) (files w)) (str_path dst) = Some c
            \<and> c \<noteq> []))"
  by (simp add: wrap_raw_def remux_to_mkv_def mp4_faststart_timescale_def reencode_cfr_def
      criterion)

theorem success_criterion_witness:
  "fst (empty_output_tool (remux_to_mkv_cmd cam_avi (Path ''/rec/'' ''cam_fixed.mkv''))
          (files (one_file cam_avi))) = 0
   \<and> \<not> fst (remux_to_mkv empty_output_tool cam_avi (Path ''/rec/'' ''cam_fixed.mkv'')
              (one_file cam_avi))"
  using success_criterion [of empty_output_tool cam_avi "Path ''/rec/'' ''cam_fixed.mkv''" 25
      "one_file cam_avi" False None]
  by (simp add: empty_output_tool_def remux_to_mkv_cmd_def str_path_def)

section \<open>Per-file pipeline\<close>


text \<open>
  Claim C9. For a file classified OK the pipeline returns the action "none", and in a dry run
  for any other verdict the action "planned", both with an empty output path, no error and
  the state returned as it was: no file is created, renamed or deleted and no command is
  handed to the muxer/encoder. The loop body of \<open>main\<close> likewise leaves the state untouched
  and reports "none" for an OK file and in a dry run.
\<close>

theorem ok_and_dry_run_touch_nothing:
  assumes "verdict_for_file fa fl ffprobe_json packet_lines p tol = (verdict, reason, extra)"
  shows "(verdict = ''OK'' \<longrightarrow>
            process_one fa fl ffprobe_json packet_lines tool tol p try_fps dry_run inplace prefer_mkv w
              = (Inr (''OK'', ''none'', [], None), w))
       \<and> (verdict \<noteq> ''OK'' \<and> dry_run \<longrightarrow>
            process_one fa fl ffprobe_json packet_lines tool tol p try_fps dry_run inplace prefer_mkv w
              = (Inr (verdict, ''planned'', [], None), w))
       \<and> (verdict = ''OK'' \<or> dry_run \<longrightarrow>
            main_target fa fl ffprobe_json packet_lines tool tol p try_fps dry_run inplace prefer_mkv w
              = (Inr (''none'', [], None), w))"
  using assms by (auto simp add: process_one_def main_target_def Let_def)

theorem ok_and_dry_run_touch_nothing_witness:
  "verdict_for_file binary64_sample digits_float probe_none lines_none cam_avi tol_default =
     (''FIX'', NoMetaNoPts, [''container'' \<mapsto> DNone, ''vcodec'' \<mapsto> DNone])
   \<and> process_one binary64_sample digits_float probe_none lines_none working_tool tol_default cam_avi [25, 30]
        True False False (one_file cam_avi)
        = (Inr (''FIX'', ''planned'', [], None), one_file cam_avi)
   \<and> main_target binary64_sample digits_float probe_none lines_none working_tool tol_default cam_avi [25, 30]
        True False False (one_file cam_avi)
        = (Inr (''none'', [], None), one_file cam_avi)"
proof -
  have v: "verdict_for_file binary64_sample digits_float probe_none lines_none cam_avi tol_default =
     (''FIX'', NoMetaNoPts, [''container'' \<mapsto> DNone, ''vcodec'' \<mapsto> DNone])"
    using cam_avi_not_raw
    by (simp add: verdict_for_file_def Let_def meta_none pts_none unusable_def dstr_def)
  from ok_and_dry_run_touch_nothing [OF v, of working_tool "[25, 30]" True False False
      "one_file cam_avi"] v
  show ?thesis by simp
qed

section \<open>The FIX chain\<close>

lemma out_ext_cases: "out_ext prefer_mkv = ''.mkv'' \<or> out_ext prefer_mkv = ''.mp4''"
  by (simp add: out_ext_def)

lemma attempt_remux: "attempt tool p tmp prefer_mkv Remux w = remux_to_mkv tool p tmp w"
  by (simp add: attempt_def remux_to_mkv_def strategy_cmd_def ensure_parent_def)

lemma attempt_faststart:
  "attempt tool p tmp prefer_mkv Faststart w = mp4_faststart_timescale tool p tmp w"
  by (simp add: attempt_def mp4_faststart_timescale_def strategy_cmd_def ensure_parent_def)

lemma attempt_reencode:
  "attempt tool p tmp prefer_mkv (ReencodeCFR f) w = reencode_cfr tool p tmp prefer_mkv f w"
  by (simp add: attempt_def reencode_cfr_def strategy_cmd_def ensure_parent_def)

lemma reencode_loop_refines:
  "reencode_loop tool p ''FIX'' inplace prefer_mkv (out_ext prefer_mkv) fs w =
   spec_fix_chain tool p inplace prefer_mkv (map ReencodeCFR fs) w"
proof (induction fs arbitrary: w)
  case Nil
  show ?case by simp
next
  case (Cons f fs)
  show ?case
  proof (cases inplace)
    case True
    with Cons.IH show ?thesis
      by (simp add: attempt_reencode target_name_def strategy_final_def strategy_tag_def
          split: sum.splits prod.splits)
  next
    case False
    with Cons.IH show ?thesis
      by (simp add: attempt_reencode target_name_def strategy_final_def strategy_tag_def
          split: sum.splits prod.splits)
  qed
qed

lemma process_fix_refines:
  "process_fix tool p ''FIX'' try_fps inplace prefer_mkv (out_ext prefer_mkv) w =
   spec_fix_chain tool p inplace prefer_mkv (fix_strategies try_fps) w"
proof -
  have loop: "\<And>w. reencode_loop tool p ''FIX'' inplace prefer_mkv (out_ext prefer_mkv)
      (None # map Some try_fps) w =
    spec_fix_chain tool p inplace prefer_mkv (map ReencodeCFR (None # map Some try_fps)) w"
    by (rule reencode_loop_refines)
  show ?thesis
  proof (cases inplace)
    case True
    then show ?thesis
      unfolding process_fix_def fix_strategies_def spec_fix_chain.simps(2) [of _ _ _ _ Remux]
        spec_fix_chain.simps(2) [of _ _ _ _ Faststart] loop
      by (simp add: attempt_remux attempt_faststart target_name_def strategy_final_def
          strategy_tag_def split: sum.splits prod.splits)
  next
    case False
    then show ?thesis
      unfolding process_fix_def fix_strategies_def spec_fix_chain.simps(2) [of _ _ _ _ Remux]
        spec_fix_chain.simps(2) [of _ _ _ _ Faststart] loop
      by (simp add: attempt_remux attempt_faststart target_name_def strategy_final_def
          strategy_tag_def split: sum.splits prod.splits)
  qed
qed

lemma process_one_fix:
  assumes "fst (verdict_for_file fa fl pj pl p tol) = ''FIX''" and "\<not> dry_run"
  shows "process_one fa fl pj pl tool tol p try_fps dry_run inplace prefer_mkv w =
     spec_fix_chain tool p inplace prefer_mkv (fix_strategies try_fps) w"
proof -
  obtain r e where v: "verdict_for_file fa fl pj pl p tol = (''FIX'', r, e)"
    using assms(1) by (metis fst_conv prod.exhaust)
  have "process_one fa fl pj pl tool tol p try_fps dry_run inplace prefer_mkv w =
     process_fix tool p ''FIX'' try_fps inplace prefer_mkv (out_ext prefer_mkv) w"
    using assms(2) by (simp add: process_one_def v out_ext_def Let_def)
  then show ?thesis by (simp add: process_fix_refines)
qed


lemma target_name_tail:
  "\<exists>c r. target_name p inplace (out_ext prefer_mkv) s = stem p @ CHR ''_'' # c # r
     \<and> CHR ''/'' \<notin> set (c # r)"
  using out_ext_cases [of prefer_mkv]
  by (cases s) (auto simp add: target_name_def)

lemma target_name_not_name: "target_name p inplace (out_ext prefer_mkv) s \<noteq> name p"
proof
  assume eq: "target_name p inplace (out_ext prefer_mkv) s = name p"
  obtain c r where t: "target_name p inplace (out_ext prefer_mkv) s = stem p @ CHR ''_'' # c # r"
    using target_name_tail by blast
  from eq t have "stem p @ CHR ''_'' # c # r = stem p @ suffix p"
    by (simp add: stem_suffix)
  then have "suffix p = CHR ''_'' # c # r" by simp
  with suffix_shape [of p] show False by auto
qed

lemma with_name_target:
  assumes "file_path p"
  shows "with_name p (target_name p inplace (out_ext prefer_mkv) s) =
     Inr (Path (dir_prefix p) (target_name p inplace (out_ext prefer_mkv) s))"
proof -
  obtain c r where t: "target_name p inplace (out_ext prefer_mkv) s = stem p @ CHR ''_'' # c # r"
    and nosep: "CHR ''/'' \<notin> set (c # r)"
    using target_name_tail by blast
  from assms set_stem [of p] have "CHR ''/'' \<notin> set (stem p)"
    by (auto simp add: file_path_def)
  with nosep t have "CHR ''/'' \<notin> set (target_name p inplace (out_ext prefer_mkv) s)" by auto
  moreover from t have "target_name p inplace (out_ext prefer_mkv) s \<noteq> []"
    and "target_name p inplace (out_ext prefer_mkv) s \<noteq> ''.''"
    by (auto simp add: append_eq_Cons_conv)
  ultimately show ?thesis using assms by (simp add: with_name_def file_path_def)
qed

lemma with_name_Inr: "with_name p n = Inr q \<Longrightarrow> q = Path (dir_prefix p) n"
  by (auto simp add: with_name_def split: if_splits)

lemma last_strategy_cmd: "last (strategy_cmd p tmp prefer_mkv s) = str_path tmp"
  by (cases s)
    (simp_all add: strategy_cmd_def remux_to_mkv_cmd_def mp4_faststart_timescale_cmd_def
      reencode_cfr_cmd_def)

lemma attempt_world:
  "snd (attempt tool p tmp prefer_mkv s w) =
     w\<lparr>files := snd (tool (strategy_cmd p tmp prefer_mkv s) (files w)),
       invoked := invoked w @ [strategy_cmd p tmp prefer_mkv s]\<rparr>"
  by (simp add: attempt_def run_def split: prod.splits)

lemma replace_inplace_invoked:
  "replace_inplace p tmp fin w = (r, w') \<Longrightarrow> invoked w' = invoked w"
  by (auto simp add: replace_inplace_def unlink_ignoring_errors_def rename_def Let_def
      split: sum.splits option.splits)

lemma chain_invoked_prefix:
  "\<exists>n\<le>length ss. invoked (snd (spec_fix_chain tool p inplace prefer_mkv ss w)) =
     invoked w @
     take n (map (\<lambda>s. strategy_cmd p
                    (Path (dir_prefix p) (target_name p inplace (out_ext prefer_mkv) s))
                    prefer_mkv s) ss)"
proof (induction ss arbitrary: w)
  case Nil
  show ?case by simp
next
  case (Cons s ss)
  let ?tn = "target_name p inplace (out_ext prefer_mkv) s"
  let ?tmp = "Path (dir_prefix p) ?tn"
  show ?case
  proof (cases "with_name p ?tn")
    case (Inl e)
    then have "invoked (snd (spec_fix_chain tool p inplace prefer_mkv (s # ss) w)) = invoked w"
      by simp
    then show ?thesis by (intro exI [of _ 0]) simp
  next
    case (Inr tmp)
    then have tmp: "tmp = ?tmp" by (rule with_name_Inr)
    obtain ok w1 where a: "attempt tool p ?tmp prefer_mkv s w = (ok, w1)" by force
    from attempt_world [of tool p ?tmp prefer_mkv s w] a
    have w1: "invoked w1 = invoked w @ [strategy_cmd p ?tmp prefer_mkv s]" by simp
    show ?thesis
    proof (cases ok)
      case False
      from Cons.IH [of w1] obtain n where n: "n \<le> length ss"
        "invoked (snd (spec_fix_chain tool p inplace prefer_mkv ss w1)) =
           invoked w1 @ take n (map (\<lambda>s. strategy_cmd p
             (Path (dir_prefix p) (target_name p inplace (out_ext prefer_mkv) s)) prefer_mkv s) ss)"
        by blast
      with Inr tmp a False w1 show ?thesis
        by (intro exI [of _ "Suc n"]) simp
    next
      case True
      with Inr tmp a w1 show ?thesis
        by (intro exI [of _ "Suc 0"])
          (auto split: sum.splits prod.splits dest: replace_inplace_invoked)
    qed
  qed
qed

lemma attempt_keeps_source:
  assumes "writes_only_destination tool"
  shows "files (snd (attempt tool p (Path (dir_prefix p)
            (target_name p inplace (out_ext prefer_mkv) s)) prefer_mkv s w)) (str_path p)
         = files w (str_path p)"
proof -
  let ?tmp = "Path (dir_prefix p) (target_name p inplace (out_ext prefer_mkv) s)"
  have "str_path p \<noteq> last (strategy_cmd p ?tmp prefer_mkv s)"
    using target_name_not_name [of p inplace prefer_mkv s]
    by (simp add: last_strategy_cmd str_path_def)
  with assms have "snd (tool (strategy_cmd p ?tmp prefer_mkv s) (files w)) (str_path p)
      = files w (str_path p)"
    unfolding writes_only_destination_def by blast
  then show ?thesis by (simp add: attempt_world)
qed

lemma chain_exhausted:
  assumes "file_path p" and "all_fail tool p inplace prefer_mkv ss w"
  shows "fst (spec_fix_chain tool p inplace prefer_mkv ss w) =
       Inr (''FIX'', ''reencode_failed'', [], Some ''Re-encode CFR falhou com todos os FPS.'')
     \<and> invoked (snd (spec_fix_chain tool p inplace prefer_mkv ss w)) =
       invoked w @ map (\<lambda>s. strategy_cmd p
                    (Path (dir_prefix p) (target_name p inplace (out_ext prefer_mkv) s))
                    prefer_mkv s) ss
     \<and> (writes_only_destination tool \<longrightarrow>
          files (snd (spec_fix_chain tool p inplace prefer_mkv ss w)) (str_path p)
            = files w (str_path p))"
  using assms(2)
proof (induction ss arbitrary: w)
  case Nil
  show ?case by simp
next
  case (Cons s ss)
  let ?tmp = "Path (dir_prefix p) (target_name p inplace (out_ext prefer_mkv) s)"
  obtain ok w1 where a: "attempt tool p ?tmp prefer_mkv s w = (ok, w1)" by force
  with Cons.prems have fail: "\<not> ok" and rest: "all_fail tool p inplace prefer_mkv ss w1"
    by simp_all
  from a have w1: "w1 = snd (attempt tool p ?tmp prefer_mkv s w)" by simp
  have step: "spec_fix_chain tool p inplace prefer_mkv (s # ss) w =
      spec_fix_chain tool p inplace prefer_mkv ss w1"
    using a fail by (simp add: with_name_target [OF assms(1)])
  have inv: "invoked w1 = invoked w @ [strategy_cmd p ?tmp prefer_mkv s]"
    by (simp add: w1 attempt_world)
  have src: "writes_only_destination tool \<Longrightarrow> files w1 (str_path p) = files w (str_path p)"
    unfolding w1 by (rule attempt_keeps_source)
  from Cons.IH [OF rest] step inv src show ?case by simp
qed


text \<open>
  Claim C3. Live repair on a FIX verdict is the chain of the specification run on the list
  remux, faststart/timescale copy, CFR re-encode without frame-rate hint, CFR re-encode with
  each candidate frame rate in the caller's order: each strategy is attempted only after all
  earlier ones failed, and the first that satisfies the success criterion ends the chain. The
  command lines handed to the muxer/encoder are therefore always an initial segment of the
  chain's command lines in that order. When every attempt fails the outcome is
  \<open>reencode_failed\<close>, every command line of the chain was run once, and, the tool writing
  nothing but its destination, the original file is as it was.
\<close>

theorem fix_chain_order:
  assumes "fst (verdict_for_file fa fl ffprobe_json packet_lines p tol) = ''FIX''"
    and "\<not> dry_run"
  shows "process_one fa fl ffprobe_json packet_lines tool tol p try_fps dry_run inplace prefer_mkv w
       = spec_fix_chain tool p inplace prefer_mkv (fix_strategies try_fps) w
     \<and> (\<exists>n\<le>length (chain_cmds p inplace prefer_mkv try_fps).
          invoked (snd (process_one fa fl ffprobe_json packet_lines tool tol p try_fps dry_run
                          inplace prefer_mkv w))
            = invoked w @ take n (chain_cmds p inplace prefer_mkv try_fps))
     \<and> (file_path p \<and> all_fail tool p inplace prefer_mkv (fix_strategies try_fps) w \<longrightarrow>
          fst (process_one fa fl ffprobe_json packet_lines tool tol p try_fps dry_run
                 inplace prefer_mkv w)
            = Inr (''FIX'', ''reencode_failed'', [],
                   Some ''Re-encode CFR falhou com todos os FPS.'')
          \<and> invoked (snd (process_one fa fl ffprobe_json packet_lines tool tol p try_fps dry_run
                            inplace prefer_mkv w))
            = invoked w @ chain_cmds p inplace prefer_mkv try_fps
          \<and> (writes_only_destination tool \<longrightarrow>
               files (snd (process_one fa fl ffprobe_json packet_lines tool tol p try_fps dry_run
                             inplace prefer_mkv w)) (str_path p)
                 = files w (str_path p)))"
proof -
  have eq: "process_one fa fl ffprobe_json packet_lines tool tol p try_fps dry_run inplace
        prefer_mkv w
      = spec_fix_chain tool p inplace prefer_mkv (fix_strategies try_fps) w"
    using assms by (rule process_one_fix)
  have pre: "\<exists>n\<le>length (chain_cmds p inplace prefer_mkv try_fps).
      invoked (snd (spec_fix_chain tool p inplace prefer_mkv (fix_strategies try_fps) w))
        = invoked w @ take n (chain_cmds p inplace prefer_mkv try_fps)"
    using chain_invoked_prefix [of "fix_strategies try_fps" tool p inplace prefer_mkv w]
    by (simp add: chain_cmds_def)
  have ex: "file_path p \<and> all_fail tool p inplace prefer_mkv (fix_strategies try_fps) w \<longrightarrow>
      fst (spec_fix_chain tool p inplace prefer_mkv (fix_strategies try_fps) w)
        = Inr (''FIX'', ''reencode_failed'', [], Some ''Re-encode CFR falhou com todos os FPS.'')
      \<and> invoked (snd (spec_fix_chain tool p inplace prefer_mkv (fix_strategies try_fps) w))
        = invoked w @ chain_cmds p inplace prefer_mkv try_fps
      \<and> (writes_only_destination tool \<longrightarrow>
           files (snd (spec_fix_chain tool p inplace prefer_mkv (fix_strategies try_fps) w))
             (str_path p) = files w (str_path p))"
    using chain_exhausted [of p tool inplace prefer_mkv "fix_strategies try_fps" w]
    by (simp add: chain_cmds_def)
  from eq pre ex show ?thesis by simp
qed

lemma verdict_cam_avi_fix:
  "verdict_for_file binary64_sample digits_float probe_none lines_none cam_avi tol_default =
     (''FIX'', NoMetaNoPts, [''container'' \<mapsto> DNone, ''vcodec'' \<mapsto> DNone])"
  using cam_avi_not_raw
  by (simp add: verdict_for_file_def Let_def meta_none pts_none unusable_def dstr_def)

lemma file_path_cam_avi: "file_path cam_avi"
  by (simp add: file_path_def cam_avi_def)

theorem fix_chain_order_witness:
  "fst (verdict_for_file binary64_sample digits_float probe_none lines_none cam_avi tol_default) = ''FIX''
   \<and> file_path cam_avi
   \<and> all_fail failing_tool cam_avi False False (fix_strategies [25, 30]) (one_file cam_avi)
   \<and> writes_only_destination failing_tool
   \<and> fst (process_one binary64_sample digits_float probe_none lines_none failing_tool tol_default cam_avi [25, 30]
            False False False (one_file cam_avi))
       = Inr (''FIX'', ''reencode_failed'', [], Some ''Re-encode CFR falhou com todos os FPS.'')
   \<and> length (invoked (snd (process_one binary64_sample digits_float probe_none lines_none failing_tool tol_default
                cam_avi [25, 30] False False False (one_file cam_avi)))) = 5
   \<and> files (snd (process_one binary64_sample digits_float probe_none lines_none failing_tool tol_default cam_avi
               [25, 30] False False False (one_file cam_avi))) (str_path cam_avi)
       = Some ''original''"
proof -
  have v: "fst (verdict_for_file binary64_sample digits_float probe_none lines_none cam_avi tol_default) = ''FIX''"
    by (simp add: verdict_cam_avi_fix)
  have d: "\<not> False" by simp
  have af: "all_fail failing_tool cam_avi False False (fix_strategies [25, 30])
      (one_file cam_avi)"
    by (simp add: fix_strategies_def attempt_def run_def failing_tool_def)
  have wo: "writes_only_destination failing_tool"
    by (simp add: writes_only_destination_def failing_tool_def)
  from fix_chain_order [OF v d, of failing_tool "[25, 30]" False False "one_file cam_avi"]
    file_path_cam_avi af wo
  have "fst (process_one binary64_sample digits_float probe_none lines_none failing_tool tol_default cam_avi [25, 30]
            False False False (one_file cam_avi))
       = Inr (''FIX'', ''reencode_failed'', [], Some ''Re-encode CFR falhou com todos os FPS.'')
    \<and> invoked (snd (process_one binary64_sample digits_float probe_none lines_none failing_tool tol_default
                cam_avi [25, 30] False False False (one_file cam_avi)))
       = invoked (one_file cam_avi) @ chain_cmds cam_avi False False [25, 30]
    \<and> files (snd (process_one binary64_sample digits_float probe_none lines_none failing_tool tol_default cam_avi
               [25, 30] False False False (one_file cam_avi))) (str_path cam_avi)
       = files (one_file cam_avi) (str_path cam_avi)"
    by blast
  with v file_path_cam_avi af wo show ?thesis
    by (simp add: chain_cmds_def fix_strategies_def one_file_def)
qed

section \<open>In-place replacement\<close>




















end
